theory Spec2Isabelle
  imports Complex_Main "HOL-Library.Log_Nat"
begin

section \<open>JavaScript strings and numbers\<close>

text \<open>
  Strings are lists of 8-bit characters read as ASCII.

  A JavaScript number is an IEEE 754 double. A finite double is a rational number, and
  the result of an arithmetic operation is the exact result rounded to the nearest
  double, ties to the even significand: \<open>toDouble\<close>. A decimal literal such as
  \<^verbatim>\<open>0.7\<close> denotes \<open>toDouble (7 / 10)\<close>. Numbers are taken below \<open>2 ^ 1024\<close> in
  magnitude, so no operation overflows; the sign of zero is not modelled. The result of
  a division, which may be \<open>NaN\<close> or infinite, is a value of \<open>jsnum\<close>.
\<close>

definition pow2 :: "int \<Rightarrow> rat" where
  "pow2 e = (if e \<ge> 0 then 2 ^ nat e else 1 / 2 ^ nat (- e))"

text \<open>The binary exponent of a positive rational \<open>a\<close>: \<open>pow2 e \<le> a < pow2 (e + 1)\<close>.\<close>

definition exponentOf :: "rat \<Rightarrow> int" where
  "exponentOf a =
     (let k = (if a \<ge> 1 then bitlen \<lfloor>a\<rfloor> - 1 else - bitlen \<lfloor>1 / a\<rfloor>) in
      if pow2 (k + 1) \<le> a then k + 1 else k)"

definition roundHalfEven :: "rat \<Rightarrow> int" where
  "roundHalfEven m =
     (let f = \<lfloor>m\<rfloor>; r = m - of_int f in
      if r < 1 / 2 then f else if r > 1 / 2 then f + 1 else if even f then f else f + 1)"

text \<open>
  Rounding to a double: 53 significant bits, and below \<open>pow2 (- 1022)\<close> the fixed
  spacing \<open>pow2 (- 1074)\<close> of the subnormal numbers.
\<close>

definition toDouble :: "rat \<Rightarrow> rat" where
  "toDouble x =
     (if x = 0 then 0
      else let a = \<bar>x\<bar>; e = max (exponentOf a) (- 1022); u = pow2 (e - 52) in
        sgn x * of_int (roundHalfEven (a / u)) * u)"

definition upperAZ :: string where
  "upperAZ = ''ABCDEFGHIJKLMNOPQRSTUVWXYZ''"

definition lowerAZ :: string where
  "lowerAZ = ''abcdefghijklmnopqrstuvwxyz''"

text \<open>\<^verbatim>\<open>String.prototype.toLowerCase\<close> on ASCII.\<close>

definition lowerChar :: "char \<Rightarrow> char" where
  "lowerChar c = (case map_of (zip upperAZ lowerAZ) c of Some l \<Rightarrow> l | None \<Rightarrow> c)"

definition toLowerCase :: "string \<Rightarrow> string" where
  "toLowerCase s = map lowerChar s"

text \<open>\<^verbatim>\<open>s.includes(t)\<close>: \<open>t\<close> occurs in \<open>s\<close> as a contiguous block.\<close>

fun startsWith :: "string \<Rightarrow> string \<Rightarrow> bool" where
  "startsWith s [] = True"
| "startsWith [] (d # t) = False"
| "startsWith (c # s) (d # t) = (c = d \<and> startsWith s t)"

fun str_includes :: "string \<Rightarrow> string \<Rightarrow> bool" where
  "str_includes [] t = (t = [])"
| "str_includes (c # s) t = (startsWith (c # s) t \<or> str_includes s t)"

text \<open>The class \<^verbatim>\<open>\s\<close> on ASCII: tab, line feed, vertical tab, form feed, carriage return, space.\<close>

definition isSpace :: "char \<Rightarrow> bool" where
  "isSpace c = (c \<in> set [CHR 0x09, CHR 0x0A, CHR 0x0B, CHR 0x0C, CHR 0x0D, CHR 0x20])"

text \<open>\<^verbatim>\<open>String.prototype.trim\<close>.\<close>

definition trim :: "string \<Rightarrow> string" where
  "trim s = rev (dropWhile isSpace (rev (dropWhile isSpace s)))"

text \<open>
  \<^verbatim>\<open>s.split(/[...]+/)\<close> for a character class \<open>d\<close>: the pieces between the maximal
  runs of delimiters; a run at either end leaves an empty piece there, and the empty
  string splits into one empty piece.
\<close>

function js_split :: "(char \<Rightarrow> bool) \<Rightarrow> string \<Rightarrow> string list" where
  "js_split d [] = [[]]"
| "js_split d (c # cs) =
     (if d c then [] # js_split d (dropWhile d cs)
      else (case js_split d cs of w # ws \<Rightarrow> (c # w) # ws | [] \<Rightarrow> [[c]]))"
  by pat_completeness auto
termination
  by (relation "measure (\<lambda>(d, s). length s)") (auto simp: length_dropWhile_le less_Suc_eq_le)

section \<open>matchService.js: string similarity\<close>

text \<open>
  \<^verbatim>\<open>
  function commonPrefixLength(str1, str2) {
    const minLength = Math.min(str1.length, str2.length);
    let i = 0;
    while (i < minLength && str1[i] === str2[i]) { i++; }
    return i;
  }
  \<close>
\<close>

function prefixLoop :: "string \<Rightarrow> string \<Rightarrow> nat \<Rightarrow> nat" where
  "prefixLoop str1 str2 i =
     (if i < min (length str1) (length str2) \<and> str1 ! i = str2 ! i
      then prefixLoop str1 str2 (Suc i) else i)"
  by pat_completeness auto
termination
  by (relation "measure (\<lambda>(str1, str2, i). min (length str1) (length str2) - i)") auto

definition commonPrefixLength :: "string \<Rightarrow> string \<Rightarrow> nat" where
  "commonPrefixLength str1 str2 = prefixLoop str1 str2 0"

function suffixLoop :: "string \<Rightarrow> string \<Rightarrow> nat \<Rightarrow> nat" where
  "suffixLoop str1 str2 i =
     (if i < min (length str1) (length str2)
         \<and> str1 ! (length str1 - 1 - i) = str2 ! (length str2 - 1 - i)
      then suffixLoop str1 str2 (Suc i) else i)"
  by pat_completeness auto
termination
  by (relation "measure (\<lambda>(str1, str2, i). min (length str1) (length str2) - i)") auto

definition commonSuffixLength :: "string \<Rightarrow> string \<Rightarrow> nat" where
  "commonSuffixLength str1 str2 = suffixLoop str1 str2 0"

text \<open>
  \<^verbatim>\<open>calculateStringSimilarity(str1, str2)\<close>, the branches in the order of the source:
  direct match, containment either way, the check for an empty string, the short-string
  comparison of first characters, shared words, common prefix or suffix, default.
\<close>

definition commonWords :: "string list \<Rightarrow> string list \<Rightarrow> nat" where
  "commonWords words1 words2 =
     length (filter (\<lambda>w1. list_ex (\<lambda>w2. w1 = w2 \<or> str_includes w1 w2 \<or> str_includes w2 w1) words2)
               words1)"

definition calculateStringSimilarity :: "string \<Rightarrow> string \<Rightarrow> rat" where
  "calculateStringSimilarity str1 str2 =
     (if str1 = str2 then 1
      else if str_includes str1 str2 then toDouble (9 / 10)
      else if str_includes str2 str1 then toDouble (9 / 10)
      else let len1 = length str1; len2 = length str2 in
        if len1 = 0 \<or> len2 = 0 then 0
        else if len1 < 3 \<or> len2 < 3 then (if hd str1 = hd str2 then toDouble (7 / 10) else 0)
        else let words1 = js_split isSpace str1; words2 = js_split isSpace str2;
                 common = commonWords words1 words2 in
          if common > 0
          then toDouble (of_nat common / of_nat (max (length words1) (length words2)))
          else let prefixLength = commonPrefixLength str1 str2;
                   suffixLength = commonSuffixLength str1 str2 in
            if prefixLength \<ge> 3 \<or> suffixLength \<ge> 3
            then toDouble (of_nat (prefixLength + suffixLength) / of_nat (len1 + len2))
            else toDouble (1 / 10))"

section \<open>matchService.js: keyword extraction\<close>

text \<open>The literal list \<^verbatim>\<open>techKeywords\<close> of \<^verbatim>\<open>extractTechKeywords\<close>, in the order of the source.\<close>

definition techKeywords :: "string list" where
  "techKeywords =
    [''JavaScript'', ''JS'', ''TypeScript'', ''TS'', ''React'', ''Angular'', ''Vue'', ''Node'', ''Express'',
     ''MongoDB'', ''SQL'', ''PostgreSQL'', ''MySQL'', ''Firebase'', ''AWS'', ''Azure'', ''GCP'',
     ''Docker'', ''Kubernetes'', ''CI/CD'', ''Git'', ''GitHub'', ''GitLab'', ''Python'', ''Django'', ''Flask'',
     ''Java'', ''Spring'', ''C#'', ''.NET'', ''C++'', ''Ruby'', ''Rails'', ''PHP'', ''Laravel'', ''Symfony'',
     ''HTML'', ''CSS'', ''SASS'', ''SCSS'', ''Bootstrap'', ''Tailwind'', ''Redux'', ''GraphQL'', ''REST API'',
     ''Agile'', ''Scrum'', ''TDD'', ''Jest'', ''Mocha'', ''Cypress'', ''WebPack'', ''Babel'', ''ESLint'',
     ''Responsive Design'', ''Mobile Development'', ''Android'', ''iOS'', ''Swift'', ''Kotlin'',
     ''Machine Learning'', ''AI'', ''Data Science'', ''Big Data'', ''Hadoop'', ''Spark'', ''TensorFlow'',
     ''Blockchain'', ''Ethereum'', ''Solidity'', ''DevOps'', ''Linux'', ''Unix'', ''Bash'', ''Shell'',
     ''PowerShell'', ''Frontend'', ''Backend'', ''Fullstack'', ''Web Development'', ''Software Engineering'',
     ''Algorithm'', ''Data Structure'', ''Database'', ''Networking'', ''Security'', ''Cloud Computing'',
     ''Microservices'', ''API Design'', ''UI/UX'', ''Testing'', ''QA'', ''Debugging'', ''Performance Optimization'',
     ''Go'', ''Golang'', ''Rust'', ''Scala'', ''Clojure'', ''Haskell'', ''Erlang'', ''Elixir'', ''F#'', ''OCaml'',
     ''R'', ''Julia'', ''MATLAB'', ''Perl'', ''Assembly'', ''COBOL'', ''Fortran'', ''Lisp'', ''Scheme'',
     ''Next.js'', ''Gatsby'', ''Svelte'', ''jQuery'', ''Ember'', ''Backbone'', ''Knockout'', ''D3.js'',
     ''Three.js'', ''WebGL'', ''Canvas'', ''SVG'', ''Web Components'', ''PWA'', ''Service Workers'',
     ''WebSockets'', ''WebRTC'', ''WebAssembly'', ''WASM'',
     ''Senior'', ''Junior'', ''Developer'', ''Engineer'', ''Architect'', ''Lead'', ''Manager'', ''Director'',
     ''Programmer'', ''SDE'', ''SWE'']"

text \<open>
  The delimiter class of \<^verbatim>\<open>split(/[\s\-_.,;:!?()[\]{}|\\/"']+/)\<close>: white space and
  the listed punctuation (backslash, double quote and single quote by their codes).
\<close>

definition isDelimiter :: "char \<Rightarrow> bool" where
  "isDelimiter c =
     (isSpace c \<or> c \<in> set (''-_.,;:!?()[]{}|/'' @ [CHR 0x5C, CHR 0x22, CHR 0x27]))"

definition isLowerAZ :: "char \<Rightarrow> bool" where
  "isLowerAZ c = (c \<in> set lowerAZ)"

definition isUpperAZ :: "char \<Rightarrow> bool" where
  "isUpperAZ c = (c \<in> set upperAZ)"

text \<open>
  The four tests of the filter on \<^verbatim>\<open>words\<close>. Each regular expression is written out
  as the shape it accepts; a run \<^verbatim>\<open>[a-z]+\<close> followed by a character outside
  \<^verbatim>\<open>[a-z]\<close> can only be the maximal run of lower-case letters.
\<close>

definition camelCase :: "string \<Rightarrow> bool" where
  \<comment> \<open>\<^verbatim>\<open>/^[a-z]+[A-Z][a-z]*/\<close>\<close>
  "camelCase w =
     (case dropWhile isLowerAZ w of [] \<Rightarrow> False
      | c # _ \<Rightarrow> takeWhile isLowerAZ w \<noteq> [] \<and> isUpperAZ c)"

definition pascalCase :: "string \<Rightarrow> bool" where
  \<comment> \<open>\<^verbatim>\<open>/^[A-Z][a-z]+[A-Z]/\<close>\<close>
  "pascalCase w =
     (case w of [] \<Rightarrow> False
      | c # cs \<Rightarrow> isUpperAZ c \<and>
          (case dropWhile isLowerAZ cs of [] \<Rightarrow> False
           | u # _ \<Rightarrow> takeWhile isLowerAZ cs \<noteq> [] \<and> isUpperAZ u))"

definition fileExtension :: "string \<Rightarrow> bool" where
  \<comment> \<open>\<^verbatim>\<open>/\.[a-z]{1,4}$/\<close>\<close>
  "fileExtension w =
     (let n = length (takeWhile isLowerAZ (rev w)) in
      1 \<le> n \<and> n \<le> 4 \<and>
      (case dropWhile isLowerAZ (rev w) of [] \<Rightarrow> False | c # _ \<Rightarrow> c = CHR ''.''))"

definition hyphenated :: "string \<Rightarrow> bool" where
  \<comment> \<open>\<^verbatim>\<open>/^[a-z]+\-[a-z]+$/\<close>\<close>
  "hyphenated w =
     (takeWhile isLowerAZ w \<noteq> [] \<and>
      (case dropWhile isLowerAZ w of [] \<Rightarrow> False
       | c # t \<Rightarrow> c = CHR ''-'' \<and> t \<noteq> [] \<and> list_all isLowerAZ t))"

definition looksTechnical :: "string \<Rightarrow> bool" where
  "looksTechnical word =
     ((length word > 1 \<and> camelCase word) \<or>
      (length word > 1 \<and> pascalCase word) \<or>
      fileExtension word \<or>
      hyphenated word)"

text \<open>
  \<^verbatim>\<open>[...new Set(xs)]\<close>: the elements in the order of their first insertion; a
  \<^verbatim>\<open>Set\<close> compares strings by exact equality.
\<close>

fun setInsertAll :: "'a list \<Rightarrow> 'a list \<Rightarrow> 'a list" where
  "setInsertAll seen [] = seen"
| "setInsertAll seen (x # xs) = setInsertAll (if x \<in> set seen then seen else seen @ [x]) xs"

definition newSet :: "'a list \<Rightarrow> 'a list" where
  "newSet xs = setInsertAll [] xs"

text \<open>
  \<^verbatim>\<open>
  function extractTechKeywords(text) {
    if (!text) return [];
    const textLower = text.toLowerCase();
    const found = techKeywords.filter(keyword => textLower.includes(keyword.toLowerCase()));
    const words = textLower.split(/[\s\-_.,;:!?()[\]{}|\\/"']+/);
    const potentialTechWords = words.filter(word => ...);
    return [...new Set([...found, ...potentialTechWords])];
  }
  \<close>
\<close>

definition found :: "string \<Rightarrow> string list" where
  "found textLower = filter (\<lambda>keyword. str_includes textLower (toLowerCase keyword)) techKeywords"

definition potentialTechWords :: "string \<Rightarrow> string list" where
  "potentialTechWords textLower = filter looksTechnical (js_split isDelimiter textLower)"

definition extractTechKeywords :: "string \<Rightarrow> string list" where
  "extractTechKeywords text =
     (if text = [] then []
      else let textLower = toLowerCase text in
        newSet (found textLower @ potentialTechWords textLower))"

section \<open>matchService.js: profile and job records, skill extraction\<close>

text \<open>
  The records are loosely typed objects. A field that the code only tests for truthiness
  is modelled with the empty string or the empty list for "absent"; \<^verbatim>\<open>data\<close>, which
  the code tests as an object, is an option. An entry of a \<^verbatim>\<open>skills\<close> array is a bare
  string or an object with a name and optional numbers.
\<close>

record skillObj =
  name :: string
  importance :: "rat option"
  proficiency :: "rat option"
  level :: "rat option"
  required :: "bool option"

datatype skillEntry = Str string | Obj skillObj

record repo =
  languages :: "string list"
  technologies :: "string list"
  language :: string
  repo_name :: string
  repo_description :: string

record experienceEntry =
  exp_description :: string
  exp_title :: string

record dataObj =
  data_skills :: "skillEntry list"
  repositories :: "repo list"
  data_bio :: string
  experience :: "experienceEntry list"

record obj =
  skills :: "skillEntry list"
  data :: "dataObj option"
  platform :: string
  username :: string
  title :: string
  description :: string
  bio :: string
  company :: string
  obj_id :: string
  obj_name :: string

definition emptyObj :: obj where
  "emptyObj = \<lparr>skills = [], data = None, platform = [], username = [], title = [],
     description = [], bio = [], company = [], obj_id = [], obj_name = []\<rparr>"

text \<open>\<^verbatim>\<open>typeof skill === 'string' ? skill : (skill.name || '')\<close>, then \<^verbatim>\<open>.filter(Boolean)\<close>.\<close>

fun entryName :: "skillEntry \<Rightarrow> string" where
  "entryName (Str s) = s"
| "entryName (Obj sk) = name sk"

definition skillNames :: "skillEntry list \<Rightarrow> string list" where
  "skillNames entries = filter (\<lambda>s. s \<noteq> []) (map entryName entries)"

text \<open>\<^verbatim>\<open>s.split('/')\<close> with a string separator: every separator splits, empty pieces stay.\<close>

fun splitChar :: "char \<Rightarrow> string \<Rightarrow> string list" where
  "splitChar d [] = [[]]"
| "splitChar d (c # cs) =
     (if c = d then [] # splitChar d cs
      else (case splitChar d cs of w # ws \<Rightarrow> (c # w) # ws | [] \<Rightarrow> [[c]]))"

definition keywordsOf :: "string \<Rightarrow> string list" where
  \<comment> \<open>\<^verbatim>\<open>if (t) skills.push(...extractTechKeywords(t))\<close>\<close>
  "keywordsOf t = (if t \<noteq> [] then extractTechKeywords t else [])"

definition repoSkills :: "repo \<Rightarrow> string list" where
  "repoSkills r =
     languages r @ technologies r @ (if language r \<noteq> [] then [language r] else []) @
     keywordsOf (repo_name r) @ keywordsOf (repo_description r)"

definition dataSkills :: "dataObj \<Rightarrow> string list" where
  "dataSkills d =
     skillNames (data_skills d) @ concat (map repoSkills (repositories d)) @ keywordsOf (data_bio d)"

definition isLinkedIn :: "obj \<Rightarrow> bool" where
  "isLinkedIn ob =
     (platform ob = ''linkedin'' \<or> (username ob \<noteq> [] \<and> str_includes (username ob) ''linkedin.com''))"

definition isGitHub :: "obj \<Rightarrow> bool" where
  "isGitHub ob =
     (platform ob = ''github'' \<or> (username ob \<noteq> [] \<and> \<not> str_includes (username ob) ''linkedin.com''))"

definition linkedInSkills :: "obj \<Rightarrow> string list" where
  "linkedInSkills ob =
     (if isLinkedIn ob then
        (case data ob of None \<Rightarrow> []
         | Some d \<Rightarrow> concat (map (\<lambda>e. keywordsOf (exp_description e) @ keywordsOf (exp_title e))
                              (experience d))) @
        (if username ob \<noteq> [] \<and> str_includes (username ob) ''linkedin.com'' then
           [''LinkedIn'', ''Networking'', ''Professional'', ''Communication''] @
           (let lastPart = last (splitChar CHR ''/'' (username ob)) in
            if lastPart \<noteq> [] \<and> \<not> str_includes lastPart ''linkedin.com''
            then extractTechKeywords (map (\<lambda>c. if c = CHR ''-'' then CHR '' '' else c) lastPart)
            else [])
         else [])
      else [])"

definition gitHubSkills :: "obj \<Rightarrow> string list" where
  "gitHubSkills ob =
     (if isGitHub ob then
        (if username ob \<noteq> [] \<and> \<not> str_includes (username ob) ''http''
         then [''GitHub'', ''Git'', ''Version Control'', ''Programming'', ''Software Development'', ''Coding'']
         else []) @
        (case data ob of None \<Rightarrow> []
         | Some d \<Rightarrow> concat (map (\<lambda>r. (if language r \<noteq> [] then [language r] else []) @ languages r)
                              (repositories d)))
      else [])"

definition usernameFallback :: "obj \<Rightarrow> string list \<Rightarrow> string list" where
  "usernameFallback ob skills0 =
     (if length skills0 = 0 \<and> username ob \<noteq> [] then
        (let skills1 = skills0 @ extractTechKeywords (username ob) in
         if length skills1 = 0 then
           (if isGitHub ob then [''GitHub'', ''Programming'', ''Software Development'', ''Coding'']
            else if isLinkedIn ob
            then [''LinkedIn'', ''Professional Networking'', ''Communication'', ''Professional Skills'']
            else [])
         else skills1)
      else skills0)"

definition companyFallback :: "obj \<Rightarrow> string list \<Rightarrow> string list" where
  "companyFallback ob skills0 =
     (if length skills0 = 0 \<and> company ob \<noteq> []
      then skills0 @ extractTechKeywords (company ob) @ [''Professional'', ''Communication'', ''Teamwork'']
      else skills0)"

text \<open>
  The array \<^verbatim>\<open>skills\<close> of \<^verbatim>\<open>extractSkills\<close> just before the last line: the pushes
  in the order of the source.
\<close>

definition collectedSkills :: "obj \<Rightarrow> string list" where
  "collectedSkills ob =
     companyFallback ob (usernameFallback ob
       (skillNames (skills ob) @
        (case data ob of None \<Rightarrow> [] | Some d \<Rightarrow> dataSkills d) @
        linkedInSkills ob @
        gitHubSkills ob @
        keywordsOf (title ob) @
        keywordsOf (description ob) @
        keywordsOf (bio ob)))"

text \<open>
  \<^verbatim>\<open>
  function extractSkills(obj) {
    if (!obj) return [];
    ...
    return [...new Set(skills.map(s => s?.trim()).filter(Boolean))];
  }
  \<close>
\<close>

fun extractSkills :: "obj option \<Rightarrow> string list" where
  "extractSkills None = []"
| "extractSkills (Some ob) = newSet (filter (\<lambda>s. s \<noteq> []) (map trim (collectedSkills ob)))"

section \<open>matchService.js: the local match\<close>

datatype jsnum = NaN | PosInf | NegInf | Fin rat

text \<open>Division of two doubles as JavaScript defines it, signed zeros apart.\<close>

definition js_div :: "rat \<Rightarrow> rat \<Rightarrow> jsnum" where
  "js_div a b =
     (if b = 0 then (if a = 0 then NaN else if a > 0 then PosInf else NegInf)
      else Fin (toDouble (a / b)))"

fun isNaN :: "jsnum \<Rightarrow> bool" where
  "isNaN NaN = True"
| "isNaN _ = False"

text \<open>\<^verbatim>\<open>Math.max(0, Math.min(1, score))\<close> for a score that is not \<open>NaN\<close>.\<close>

fun clamp01 :: "jsnum \<Rightarrow> rat" where
  "clamp01 (Fin x) = max 0 (min 1 x)"
| "clamp01 PosInf = 1"
| "clamp01 NegInf = 0"
| "clamp01 NaN = 0"

definition digits :: string where
  "digits = ''0123456789''"

text \<open>A natural number in a template literal: its decimal digits.\<close>

function decimal :: "nat \<Rightarrow> string" where
  "decimal n = (if n < 10 then [digits ! n] else decimal (n div 10) @ [digits ! (n mod 10)])"
  by pat_completeness auto
termination
  by (relation "measure id") auto

datatype js_error = TypeError

record localResult =
  overall_score :: rat
  skill_match :: rat
  skills_matched :: "string list"
  skills_missing :: "string list"
  message :: "string option"
  error :: "js_error option"
  platforms :: "string list option"

definition fallbackJobSkills :: "string list" where
  "fallbackJobSkills = [''communication'', ''teamwork'', ''problem solving'', ''professional'']"

definition effectiveJobSkills :: "string list \<Rightarrow> string list" where
  "effectiveJobSkills jobSkills = (if length jobSkills > 0 then jobSkills else fallbackJobSkills)"

definition similarityThreshold :: rat where
  "similarityThreshold = toDouble (6 / 10)"

definition similar :: "string \<Rightarrow> string \<Rightarrow> bool" where
  "similar pSkill jSkill =
     (calculateStringSimilarity (toLowerCase pSkill) (toLowerCase jSkill) \<ge> similarityThreshold)"

text \<open>
  \<^verbatim>\<open>
  profileSkills.forEach(pSkill => {
    const bestMatch = effectiveJobSkills.find(jSkill => ... >= similarityThreshold);
    if (bestMatch && !matchedSkills.includes(pSkill)) { matchedSkills.push(pSkill); }
  });
  \<close>
  \<^verbatim>\<open>find\<close> returns the first such job skill, and a string is truthy when it is not empty.
\<close>

fun collectMatched :: "string list \<Rightarrow> string list \<Rightarrow> string list \<Rightarrow> string list" where
  "collectMatched effective matchedSkills [] = matchedSkills"
| "collectMatched effective matchedSkills (pSkill # rest) =
     collectMatched effective
       (case List.find (similar pSkill) effective of
          None \<Rightarrow> matchedSkills
        | Some bestMatch \<Rightarrow>
            if bestMatch \<noteq> [] \<and> pSkill \<notin> set matchedSkills then matchedSkills @ [pSkill]
            else matchedSkills)
       rest"

definition missingOf :: "string list \<Rightarrow> string list \<Rightarrow> string list" where
  "missingOf profileSkills effective =
     filter (\<lambda>jSkill. \<not> list_ex (\<lambda>pSkill. similar pSkill jSkill) profileSkills) effective"

definition performLocalMatch :: "obj option \<Rightarrow> obj option \<Rightarrow> localResult" where
  "performLocalMatch profile job =
     (let profileSkills = extractSkills profile;
          jobSkills = extractSkills job;
          effective = effectiveJobSkills jobSkills in
      if length profileSkills = 0 then
        \<lparr>overall_score = toDouble (3 / 10), skill_match = toDouble (3 / 10), skills_matched = [],
         skills_missing = effective,
         message = Some ''No profile skills found for matching'',
         error = None, platforms = None\<rparr>
      else
        let matchedSkills = collectMatched effective [] profileSkills;
            missingSkills = missingOf profileSkills effective;
            score = (if length effective > 0
                     then js_div (of_nat (length matchedSkills)) (of_nat (length effective))
                     else Fin (1 / 2));
            validScore = (if isNaN score then 1 / 2 else clamp01 score) in
        \<lparr>overall_score = validScore, skill_match = validScore,
         skills_matched = matchedSkills, skills_missing = missingSkills,
         message = Some (''Found '' @ decimal (length matchedSkills) @ '' matching skills out of '' @
                         decimal (length effective) @ '' required skills''),
         error = None, platforms = None\<rparr>)"

text \<open>
  \<^verbatim>\<open>calculateMatch\<close> and \<^verbatim>\<open>calculateCombinedMatch\<close> receive references to records,
  assign to \<^verbatim>\<open>job.skills\<close> and return a reference to a result object. The records and
  the results live in a heap, a list of cells addressed by position; a reference is
  \<^verbatim>\<open>null\<close> (\<open>None\<close>) or the address of a record, and any other address reads as \<^verbatim>\<open>null\<close>.
  The arrays inside a record are never changed in place, so they are part of its value.
\<close>

datatype cell = Record obj | Result localResult

type_synonym heap = "cell list"

definition deref :: "heap \<Rightarrow> nat option \<Rightarrow> obj option" where
  "deref h r =
     (case r of None \<Rightarrow> None
      | Some a \<Rightarrow>
          if a < length h then (case h ! a of Record ob \<Rightarrow> Some ob | Result res \<Rightarrow> None)
          else None)"

text \<open>A new object: a cell at the first unused address.\<close>

definition alloc :: "heap \<Rightarrow> localResult \<Rightarrow> heap \<times> nat" where
  "alloc h res = (h @ [Result res], length h)"

definition fillJobSkills :: "obj \<Rightarrow> obj" where
  \<comment> \<open>\<^verbatim>\<open>if (job.description && (!job.skills || !job.skills.length)) job.skills = extractTechKeywords(job.description)\<close>\<close>
  "fillJobSkills job =
     (if description job \<noteq> [] \<and> length (skills job) = 0
      then job\<lparr>skills := map Str (extractTechKeywords (description job))\<rparr>
      else job)"

text \<open>The assignment, at the address of the job.\<close>

definition assignJobSkills :: "heap \<Rightarrow> nat option \<Rightarrow> heap" where
  "assignJobSkills h job =
     (case job of None \<Rightarrow> h
      | Some a \<Rightarrow>
          (case deref h job of None \<Rightarrow> h
           | Some jobRec \<Rightarrow> h[a := Record (fillJobSkills jobRec)]))"

definition defaultResult :: localResult where
  "defaultResult =
     \<lparr>overall_score = 1 / 2, skill_match = 1 / 2, skills_matched = [], skills_missing = [],
      message = None, error = Some TypeError, platforms = None\<rparr>"

text \<open>
  \<^verbatim>\<open>calculateMatch(profile, job)\<close>: the heap after the call and the address of the
  result. A \<^verbatim>\<open>null\<close> job makes \<^verbatim>\<open>job.description\<close> throw, and the \<^verbatim>\<open>catch\<close> block
  returns the default result. The profile is read after the assignment, as in the
  source.
\<close>

definition calculateMatch :: "heap \<Rightarrow> nat option \<Rightarrow> nat option \<Rightarrow> heap \<times> nat" where
  "calculateMatch h profile job =
     (case deref h job of
        None \<Rightarrow> alloc h defaultResult
      | Some jobRec \<Rightarrow>
          let h1 = assignJobSkills h job in
          alloc h1 (performLocalMatch (deref h1 profile) (deref h1 job)))"

definition platformsOf :: "obj list \<Rightarrow> string list" where
  \<comment> \<open>\<^verbatim>\<open>profiles.map(p => p.platform).filter(Boolean)\<close>\<close>
  "platformsOf profiles = filter (\<lambda>s. s \<noteq> []) (map platform profiles)"

fun derefAll :: "heap \<Rightarrow> nat option list \<Rightarrow> obj list option" where
  "derefAll h [] = Some []"
| "derefAll h (r # rs) =
     (case deref h r of None \<Rightarrow> None
      | Some ob \<Rightarrow> (case derefAll h rs of None \<Rightarrow> None | Some obs \<Rightarrow> Some (ob # obs)))"

text \<open>
  \<^verbatim>\<open>calculateCombinedMatch(profiles, job)\<close>. Reading \<^verbatim>\<open>profile.platform\<close> of a \<^verbatim>\<open>null\<close>
  profile throws in the loop and again in the \<^verbatim>\<open>catch\<close> block, so the error leaves the
  function; the assignment to \<^verbatim>\<open>job.skills\<close> has happened by then. The object
  \<^verbatim>\<open>profileObj\<close> is local to the call and is passed as a value.
\<close>

definition calculateCombinedMatch ::
    "heap \<Rightarrow> nat option list \<Rightarrow> nat option \<Rightarrow> heap \<times> (js_error + nat)" where
  "calculateCombinedMatch h profiles job =
     (case deref h job of
        None \<Rightarrow>
          (case derefAll h profiles of
             None \<Rightarrow> (h, Inl TypeError)
           | Some ps \<Rightarrow>
               let (h', r) = alloc h (defaultResult\<lparr>platforms := Some (platformsOf ps)\<rparr>)
               in (h', Inr r))
      | Some jobRec \<Rightarrow>
          let h1 = assignJobSkills h job in
          (case derefAll h1 profiles of
             None \<Rightarrow> (h1, Inl TypeError)
           | Some ps \<Rightarrow>
               let allProfileSkills = concat (map (\<lambda>profile. extractSkills (Some profile)) ps);
                   uniqueSkills = newSet allProfileSkills;
                   profileObj = emptyObj\<lparr>skills := map Str uniqueSkills\<rparr>;
                   result = performLocalMatch (Some profileObj) (deref h1 job);
                   (h', r) = alloc h1 (result\<lparr>platforms := Some (platformsOf ps)\<rparr>)
               in (h', Inr r)))"

section \<open>Home.js: the local match of the matching page\<close>

text \<open>\<^verbatim>\<open>x || d\<close> for an optional number: \<open>d\<close> when \<open>x\<close> is absent or zero.\<close>

fun numOr :: "rat option \<Rightarrow> rat \<Rightarrow> rat" where
  "numOr None d = d"
| "numOr (Some x) d = (if x = 0 then d else x)"

fun boolOr :: "bool option \<Rightarrow> bool \<Rightarrow> bool" where
  "boolOr None d = d"
| "boolOr (Some b) d = (b \<or> d)"

definition strOr :: "string \<Rightarrow> string \<Rightarrow> string" where
  "strOr s d = (if s \<noteq> [] then s else d)"

text \<open>
  \<^verbatim>\<open>extractProfileSkills\<close>: a bare string becomes \<^verbatim>\<open>{ name: skill }\<close>, an object with a
  name becomes \<^verbatim>\<open>{ name, proficiency: skill.proficiency || skill.level || 1.0 }\<close>, anything
  else is skipped.
\<close>

fun profileSkillOf :: "skillEntry \<Rightarrow> skillObj list" where
  "profileSkillOf (Str s) =
     [\<lparr>name = s, importance = None, proficiency = None, level = None, required = None\<rparr>]"
| "profileSkillOf (Obj sk) =
     (if name sk \<noteq> []
      then [\<lparr>name = name sk, importance = None,
             proficiency = Some (numOr (proficiency sk) (numOr (level sk) 1)),
             level = None, required = None\<rparr>]
      else [])"

fun extractProfileSkills :: "obj option \<Rightarrow> skillObj list" where
  "extractProfileSkills None = []"
| "extractProfileSkills (Some profile) = concat (map profileSkillOf (skills profile))"

text \<open>
  \<^verbatim>\<open>extractJobSkills\<close>: a bare string becomes \<^verbatim>\<open>{ name: skill, importance: 0.5 }\<close>, an
  object with a name becomes \<^verbatim>\<open>{ name, importance: skill.importance || 0.5 }\<close>. The
  object built has these two fields only.
\<close>

fun jobSkillOf :: "skillEntry \<Rightarrow> skillObj list" where
  "jobSkillOf (Str s) =
     [\<lparr>name = s, importance = Some (1 / 2), proficiency = None, level = None, required = None\<rparr>]"
| "jobSkillOf (Obj sk) =
     (if name sk \<noteq> []
      then [\<lparr>name = name sk, importance = Some (numOr (importance sk) (1 / 2)),
             proficiency = None, level = None, required = None\<rparr>]
      else [])"

fun extractJobSkills :: "obj option \<Rightarrow> skillObj list" where
  "extractJobSkills None = []"
| "extractJobSkills (Some job) = concat (map jobSkillOf (skills job))"

record skillMatch =
  skill_name :: string
  sm_importance :: rat
  sm_proficiency :: rat
  match_quality :: rat
  match_score :: rat
  weighted_score :: rat
  sm_required :: bool

record missingSkill =
  ms_name :: string
  ms_importance :: rat
  ms_required :: bool

record loopState =
  totalImportance :: rat
  matchedImportance :: rat
  skillMatches :: "skillMatch list"
  missingSkills :: "missingSkill list"

definition nameMatches :: "string \<Rightarrow> skillObj \<Rightarrow> bool" where
  \<comment> \<open>the predicate of \<^verbatim>\<open>profileSkills.find\<close>\<close>
  "nameMatches jobSkillName s =
     (toLowerCase (name s) = jobSkillName \<or>
      str_includes (toLowerCase (name s)) jobSkillName \<or>
      str_includes jobSkillName (toLowerCase (name s)))"

text \<open>The body of \<^verbatim>\<open>jobSkills.forEach(jobSkill => ...)\<close>.\<close>

definition matchStep :: "skillObj list \<Rightarrow> loopState \<Rightarrow> skillObj \<Rightarrow> loopState" where
  "matchStep profileSkills st jobSkill =
     (let jobSkillName = toLowerCase (name jobSkill);
          imp = numOr (importance jobSkill) (1 / 2);
          total = toDouble (totalImportance st + imp) in
      case List.find (nameMatches jobSkillName) profileSkills of
        Some matchingSkill \<Rightarrow>
          let prof = numOr (proficiency matchingSkill) 1;
              matchQuality =
                (if toLowerCase (name matchingSkill) = jobSkillName then 1 else toDouble (7 / 10));
              matchScore = toDouble (matchQuality * prof) in
          st\<lparr>totalImportance := total,
             matchedImportance := toDouble (matchedImportance st + toDouble (imp * matchScore)),
             skillMatches := skillMatches st @
               [\<lparr>skill_name = name jobSkill, sm_importance = imp, sm_proficiency = prof,
                 match_quality = matchQuality, match_score = matchScore,
                 weighted_score = toDouble (imp * matchScore),
                 sm_required = boolOr (required jobSkill) False\<rparr>]\<rparr>
      | None \<Rightarrow>
          st\<lparr>totalImportance := total,
             missingSkills := missingSkills st @
               [\<lparr>ms_name = name jobSkill, ms_importance = imp,
                 ms_required = boolOr (required jobSkill) False\<rparr>]\<rparr>)"

definition initialState :: loopState where
  "initialState = \<lparr>totalImportance = 0, matchedImportance = 0, skillMatches = [], missingSkills = []\<rparr>"

definition matchLoop :: "skillObj list \<Rightarrow> skillObj list \<Rightarrow> loopState" where
  "matchLoop profileSkills jobSkills = foldl (matchStep profileSkills) initialState jobSkills"

text \<open>
  \<^verbatim>\<open>Math.round(q * 100)\<close>: the product is rounded to a double, and \<^verbatim>\<open>Math.round\<close> gives
  the nearest integer, the greater one at a tie. \<open>NaN\<close> and the infinities stay as
  they are.
\<close>

fun roundPercent :: "jsnum \<Rightarrow> jsnum" where
  "roundPercent (Fin q) = Fin (of_int \<lfloor>toDouble (q * 100) + 1 / 2\<rfloor>)"
| "roundPercent x = x"

text \<open>\<^verbatim>\<open>overallMatch >= t\<close>: every comparison with \<open>NaN\<close> is false.\<close>

fun js_ge :: "jsnum \<Rightarrow> rat \<Rightarrow> bool" where
  "js_ge (Fin x) t = (x \<ge> t)"
| "js_ge PosInf t = True"
| "js_ge NegInf t = False"
| "js_ge NaN t = False"

definition tierText :: "jsnum \<Rightarrow> string" where
  "tierText overallMatch =
     (if js_ge overallMatch 85 then
        ''Excellent Match: This candidate has most of the required skills and would be an excellent fit for this position.''
      else if js_ge overallMatch 70 then
        ''Good Match: This candidate has many of the required skills and would likely be a good fit with some training.''
      else if js_ge overallMatch 50 then
        ''Moderate Match: This candidate has some of the required skills but may need significant training or may not be ideal for this specific role.''
      else if js_ge overallMatch 30 then
        ''Weak Match: This candidate is missing many critical skills required for this position.''
      else
        ''Poor Match: This candidate does not appear to have the necessary skills for this position.'')"

definition requiredNote :: "missingSkill list \<Rightarrow> string" where
  "requiredNote missing =
     (let missingRequiredSkills = filter ms_required missing in
      if length missingRequiredSkills > 0
      then '' Missing '' @ decimal (length missingRequiredSkills) @ '' required skill(s).''
      else [])"

text \<open>
  The result of \<^verbatim>\<open>calculateLocalMatch\<close>, without \<^verbatim>\<open>id\<close> and \<^verbatim>\<open>created_at\<close>, which are
  read from the clock.
\<close>

record matchResult =
  profile_id :: string
  profile_name :: string
  job_id :: string
  job_title :: string
  job_company :: string
  overall_match :: jsnum
  skill_matches :: "skillMatch list"
  missing_skills :: "string list"
  missing_skills_details :: "missingSkill list"
  strengths :: "string list"
  recommendation :: string

definition calculateLocalMatch :: "obj \<Rightarrow> obj \<Rightarrow> matchResult" where
  "calculateLocalMatch profile job =
     (let profileSkills = extractProfileSkills (Some profile);
          jobSkills = extractJobSkills (Some job);
          st = matchLoop profileSkills jobSkills;
          overallMatch = roundPercent (js_div (matchedImportance st) (totalImportance st)) in
      \<lparr>profile_id = strOr (obj_id profile) (username profile),
       profile_name = strOr (obj_name profile) (username profile),
       job_id = obj_id job,
       job_title = title job,
       job_company = company job,
       overall_match = overallMatch,
       skill_matches = skillMatches st,
       missing_skills = map ms_name (missingSkills st),
       missing_skills_details = missingSkills st,
       strengths = map skill_name
         (filter (\<lambda>m. sm_importance m \<ge> toDouble (7 / 10) \<and> match_score m \<ge> toDouble (7 / 10))
            (skillMatches st)),
       recommendation = tierText overallMatch @ requiredNote (missingSkills st)\<rparr>)"

section \<open>Concrete records\<close>

definition skill :: "string \<Rightarrow> rat \<Rightarrow> bool \<Rightarrow> skillEntry" where
  \<comment> \<open>\<^verbatim>\<open>{ name: n, importance: i, required: r }\<close>\<close>
  "skill n i r =
     Obj \<lparr>name = n, importance = Some i, proficiency = None, level = None, required = Some r\<rparr>"

definition scenarioA_profile :: obj where
  "scenarioA_profile = emptyObj\<lparr>skills := [Str ''React'', Str ''Node.js'']\<rparr>"

definition scenarioA_job :: obj where
  "scenarioA_job =
     emptyObj\<lparr>skills := [skill ''React'' 1 True, skill ''Python'' (toDouble (8 / 10)) True]\<rparr>"

definition noSkillsJob :: obj where
  "noSkillsJob = emptyObj\<lparr>title := ''Backend Developer'', company := ''Acme''\<rparr>"

definition named :: "string \<Rightarrow> skillObj" where
  \<comment> \<open>\<^verbatim>\<open>{ name: n }\<close>\<close>
  "named n = \<lparr>name = n, importance = None, proficiency = None, level = None, required = None\<rparr>"

definition weighted :: "string \<Rightarrow> rat \<Rightarrow> skillObj" where
  \<comment> \<open>\<^verbatim>\<open>{ name: n, importance: i }\<close>\<close>
  "weighted n i = \<lparr>name = n, importance = Some i, proficiency = None, level = None, required = None\<rparr>"

definition javaProfile :: obj where
  "javaProfile = emptyObj\<lparr>skills := [Str ''Java'', Str ''JavaScript'']\<rparr>"

definition javaScriptJob :: obj where
  "javaScriptJob = emptyObj\<lparr>skills := [Str ''JavaScript'']\<rparr>"

definition reactJsProfile :: obj where
  "reactJsProfile = emptyObj\<lparr>skills := [Str ''ReactJS'']\<rparr>"

definition reactJob :: obj where
  "reactJob = emptyObj\<lparr>skills := [Str ''React'']\<rparr>"

definition describedJob :: obj where
  "describedJob = emptyObj\<lparr>description := ''React''\<rparr>"


definition cookJob :: obj where
  "cookJob = emptyObj\<lparr>title := ''Cook'', obj_id := ''job_1''\<rparr>"

definition cookAcmeJob :: obj where
  "cookAcmeJob = emptyObj\<lparr>title := ''Cook'', company := ''Acme'', obj_id := ''job_2''\<rparr>"

definition fallbackJob :: obj where
  "fallbackJob = emptyObj\<lparr>skills := map Str fallbackJobSkills\<rparr>"

definition exampleHeap :: heap where
  "exampleHeap = [Record scenarioA_profile, Record describedJob]"

definition roundingProfile :: obj where
  "roundingProfile = emptyObj\<lparr>skills := [Str ''React'', Str ''JavaScript'']\<rparr>"

definition roundingJob :: obj where
  "roundingJob =
     emptyObj\<lparr>skills := [Obj (weighted ''React'' (toDouble (1 / 10))),
                          Obj (weighted ''Java'' (toDouble (3 / 10)))]\<rparr>"

section \<open>The doubles of the literals\<close>

lemma toDouble_zero: "toDouble 0 = 0"
  by (simp add: toDouble_def)

lemma literal_bounds:
  "0 < toDouble (1 / 10)" "0 < toDouble (9 / 10)" "toDouble (9 / 10) \<le> 1"
  "toDouble (6 / 10) \<le> 1" "0 \<le> toDouble (3 / 10)" "toDouble (3 / 10) \<le> 1"
  by code_simp+

text \<open>
  The rounding of each operation decides the percentage: for a job with the skills React
  of importance 0.1, matched exactly, and Java of importance 0.3, matched by JavaScript,
  the exact quotient 0.31/0.4 is 77.5 percent, and the doubles give 77.
\<close>

lemma double_rounding_example:
  "overall_match (calculateLocalMatch roundingProfile roundingJob) = Fin 77"
  by code_simp

section \<open>The extracted skill list\<close>

lemma setInsertAll_set: "set (setInsertAll seen xs) = set seen \<union> set xs"
  by (induction xs arbitrary: seen) auto

lemma setInsertAll_distinct: "distinct seen \<Longrightarrow> distinct (setInsertAll seen xs)"
  by (induction xs arbitrary: seen) auto

lemma newSet_set: "set (newSet xs) = set xs"
  by (simp add: newSet_def setInsertAll_set)

lemma newSet_distinct: "distinct (newSet xs)"
  by (simp add: newSet_def setInsertAll_distinct)

lemma rev_dropWhile_rev_take: "\<exists>n. rev (dropWhile P (rev t)) = take n t"
proof -
  obtain k where "dropWhile P (rev t) = drop k (rev t)"
    by (metis dropWhile_eq_drop)
  then have "rev (dropWhile P (rev t)) = take (length t - k) t"
    by (simp add: rev_drop)
  then show ?thesis ..
qed

lemma trim_idem: "trim (trim s) = trim s"
proof -
  define t where "t = dropWhile isSpace s"
  define u where "u = rev (dropWhile isSpace (rev t))"
  have u: "trim s = u" by (simp add: trim_def t_def u_def)
  have rear: "dropWhile isSpace (rev u) = rev u"
    by (simp add: u_def)
  have front: "dropWhile isSpace u = u"
  proof (cases "u = []")
    case True
    then show ?thesis by simp
  next
    case False
    obtain n where n: "u = take n t" using rev_dropWhile_rev_take[of isSpace t] u_def by auto
    with False have "t \<noteq> []" "n > 0" by auto
    then have "hd u = hd t" using n by (cases t; cases n) auto
    moreover have "\<not> isSpace (hd t)" using \<open>t \<noteq> []\<close> unfolding t_def by (rule hd_dropWhile)
    ultimately show ?thesis using False by (simp add: dropWhile_eq_self_iff)
  qed
  show ?thesis unfolding u by (simp add: trim_def front rear)
qed

lemma extractSkills_entry: "s \<in> set (extractSkills ob) \<Longrightarrow> s \<noteq> [] \<and> trim s = s"
  by (cases ob) (auto simp: newSet_set trim_idem)

lemma extractSkills_distinct: "distinct (extractSkills ob)"
  by (cases ob) (auto simp: newSet_distinct)

lemma effective_entry: "s \<in> set (effectiveJobSkills (extractSkills job)) \<Longrightarrow> s \<noteq> []"
  using extractSkills_entry[of s job]
  by (auto simp: effectiveJobSkills_def fallbackJobSkills_def split: if_splits)




section \<open>The shape heuristics of keyword extraction\<close>

lemma js_split_chars:
  "w \<in> set (js_split d s) \<Longrightarrow> c \<in> set w \<Longrightarrow> c \<in> set s \<and> \<not> d c"
proof (induction d s arbitrary: w rule: js_split.induct)
  case (1 d)
  then show ?case by simp
next
  case (2 d x xs)
  show ?case
  proof (cases "d x")
    case True
    with "2.prems" have "w \<in> set (js_split d (dropWhile d xs))" by auto
    from "2.IH"(1)[OF True this "2.prems"(2)] show ?thesis
      by (auto dest: set_dropWhileD)
  next
    case False
    show ?thesis
    proof (cases "js_split d xs")
      case Nil
      with False "2.prems" show ?thesis by auto
    next
      case (Cons w0 ws)
      with False "2.prems" have "w = x # w0 \<or> w \<in> set ws" by auto
      then show ?thesis
      proof
        assume w: "w = x # w0"
        show ?thesis
        proof (cases "c = x")
          case True
          with False show ?thesis by simp
        next
          case ne: False
          with w "2.prems"(2) have "c \<in> set w0" by simp
          moreover have "w0 \<in> set (js_split d xs)" using Cons by simp
          ultimately show ?thesis using "2.IH"(2)[OF False] by auto
        qed
      next
        assume "w \<in> set ws"
        then have "w \<in> set (js_split d xs)" using Cons by simp
        then show ?thesis using "2.IH"(2)[OF False _ "2.prems"(2)] by auto
      qed
    qed
  qed
qed

lemma lower_not_upper: "x \<in> set lowerAZ \<Longrightarrow> x \<notin> set upperAZ"
  by (auto simp: lowerAZ_def upperAZ_def)

lemma lowerChar_not_upper: "\<not> isUpperAZ (lowerChar c)"
proof (cases "map_of (zip upperAZ lowerAZ) c")
  case None
  then have "c \<notin> fst ` set (zip upperAZ lowerAZ)" by (simp add: map_of_eq_None_iff)
  moreover have "map fst (zip upperAZ lowerAZ) = upperAZ"
    by (simp add: upperAZ_def lowerAZ_def)
  ultimately have "c \<notin> set upperAZ" by (metis set_map)
  with None show ?thesis by (simp add: lowerChar_def isUpperAZ_def)
next
  case (Some l)
  then have "l \<in> set lowerAZ" by (auto dest!: map_of_SomeD set_zip_rightD)
  with Some show ?thesis by (simp add: lowerChar_def isUpperAZ_def lower_not_upper)
qed

lemma word_not_technical:
  assumes "w \<in> set (js_split isDelimiter (toLowerCase t))"
  shows "\<not> looksTechnical w"
proof -
  have chars: "\<And>c. c \<in> set w \<Longrightarrow> \<not> isUpperAZ c \<and> \<not> isDelimiter c"
    using js_split_chars[OF assms] lowerChar_not_upper by (auto simp: toLowerCase_def)
  have dot: "isDelimiter CHR ''.''" and hyph: "isDelimiter CHR ''-''"
    by (simp_all add: isDelimiter_def)
  have "\<not> camelCase w"
  proof
    assume "camelCase w"
    then obtain c r where d: "dropWhile isLowerAZ w = c # r" and u: "isUpperAZ c"
      by (auto simp: camelCase_def split: list.splits)
    from d have "c \<in> set (dropWhile isLowerAZ w)" by simp
    then have "c \<in> set w" by (rule set_dropWhileD)
    with chars u show False by blast
  qed
  moreover have "\<not> pascalCase w"
    using chars by (auto simp: pascalCase_def split: list.splits)
  moreover have "\<not> fileExtension w"
  proof
    assume "fileExtension w"
    then have "CHR ''.'' \<in> set (dropWhile isLowerAZ (rev w))"
      by (auto simp: fileExtension_def Let_def split: list.splits)
    then have "CHR ''.'' \<in> set w" by (auto dest: set_dropWhileD)
    with chars dot show False by blast
  qed
  moreover have "\<not> hyphenated w"
  proof
    assume "hyphenated w"
    then have "CHR ''-'' \<in> set (dropWhile isLowerAZ w)"
      by (auto simp: hyphenated_def split: list.splits)
    then have "CHR ''-'' \<in> set w" by (auto dest: set_dropWhileD)
    with chars hyph show False by blast
  qed
  ultimately show ?thesis by (simp add: looksTechnical_def)
qed

text \<open>
  The words tested come from the lower-cased text and hold no delimiter, so none has an
  upper-case letter, a dot or a hyphen: the filter on \<^verbatim>\<open>words\<close> never keeps a word.
\<close>

lemma potentialTechWords_empty: "potentialTechWords (toLowerCase t) = []"
  by (simp add: potentialTechWords_def filter_empty_conv word_not_technical)

lemma extractTechKeywords_vocabulary_only:
  "extractTechKeywords t = (if t = [] then [] else newSet (found (toLowerCase t)))"
  by (simp add: extractTechKeywords_def potentialTechWords_empty)

text \<open>
  C8. The claim has every camelCase- or PascalCase-shaped token of the text in the
  returned keywords, and the comments of the filter say the same. The code splits the
  lower-cased text, so the patterns with \<^verbatim>\<open>[A-Z]\<close> never match: for the text
  \<^verbatim>\<open>"fooBaz"\<close>, a camelCase token, \<^verbatim>\<open>extractTechKeywords\<close> returns the empty list.
\<close>

theorem extractTechKeywords_camelCase_token:
  "extractTechKeywords ''fooBaz'' = []"
  by code_simp

section \<open>The score of the two local matches\<close>

lemma clamp01_range: "0 \<le> clamp01 x \<and> clamp01 x \<le> 1"
  by (cases x) auto

text \<open>\<^verbatim>\<open>performLocalMatch\<close> guards its score: it is always a number between 0 and 1.\<close>

lemma performLocalMatch_score_range:
  "0 \<le> overall_score (performLocalMatch profile job) \<and>
   overall_score (performLocalMatch profile job) \<le> 1"
  using clamp01_range literal_bounds(5,6) by (simp add: performLocalMatch_def Let_def)

lemma calculateLocalMatch_no_skills_general:
  "skills job = [] \<Longrightarrow> overall_match (calculateLocalMatch profile job) = NaN"
  by (simp add: calculateLocalMatch_def matchLoop_def initialState_def js_div_def)

text \<open>
  C1. The claim has the overall score between 0 and 1 and never \<open>NaN\<close>, with 0.5 in
  place of an undefined quotient. \<^verbatim>\<open>performLocalMatch\<close> does this; \<^verbatim>\<open>calculateLocalMatch\<close>
  divides \<^verbatim>\<open>matchedImportance\<close> by \<^verbatim>\<open>totalImportance\<close> with no guard, so for a job
  without skills the quotient is 0/0 and \<^verbatim>\<open>overall_match\<close> is \<open>NaN\<close>.
\<close>

theorem calculateLocalMatch_no_job_skills:
  "overall_match (calculateLocalMatch scenarioA_profile noSkillsJob) = NaN"
  by code_simp

text \<open>
  C4. Scenario A through \<^verbatim>\<open>calculateLocalMatch\<close>: React is matched with match score 1 and
  weighted score 1, Python is missing, the overall match is 56 percent (1.0/1.8 rounded),
  and the recommendation is the Moderate text. The note on missing required skills is
  not appended: \<^verbatim>\<open>extractJobSkills\<close> copies only the name and the importance of a job
  skill, so \<^verbatim>\<open>required\<close> is false for every matched and every missing skill.
\<close>

theorem scenarioA_result:
  "calculateLocalMatch scenarioA_profile scenarioA_job =
     \<lparr>profile_id = [], profile_name = [], job_id = [], job_title = [], job_company = [],
      overall_match = Fin 56,
      skill_matches =
        [\<lparr>skill_name = ''React'', sm_importance = 1, sm_proficiency = 1, match_quality = 1,
          match_score = 1, weighted_score = 1, sm_required = False\<rparr>],
      missing_skills = [''Python''],
      missing_skills_details =
        [\<lparr>ms_name = ''Python'', ms_importance = toDouble (8 / 10), ms_required = False\<rparr>],
      strengths = [''React''],
      recommendation =
        ''Moderate Match: This candidate has some of the required skills but may need significant training or may not be ideal for this specific role.''\<rparr>"
  by code_simp

section \<open>Matched and missing skills\<close>

lemma find_list_ex: "(List.find P xs = None) = (\<not> list_ex P xs)"
  by (auto simp: find_None_iff list_ex_iff)

lemma matchStep_names:
  "map skill_name (skillMatches (matchStep ps st j)) =
     map skill_name (skillMatches st) @
     (if list_ex (nameMatches (toLowerCase (name j))) ps then [name j] else [])"
  "map ms_name (missingSkills (matchStep ps st j)) =
     map ms_name (missingSkills st) @
     (if list_ex (nameMatches (toLowerCase (name j))) ps then [] else [name j])"
  by (cases "List.find (nameMatches (toLowerCase (name j))) ps";
      simp add: matchStep_def Let_def find_list_ex[symmetric])+

lemma foldl_matchStep_names:
  "map skill_name (skillMatches (foldl (matchStep ps) st js)) =
     map skill_name (skillMatches st) @
     map name (filter (\<lambda>j. list_ex (nameMatches (toLowerCase (name j))) ps) js)"
  "map ms_name (missingSkills (foldl (matchStep ps) st js)) =
     map ms_name (missingSkills st) @
     map name (filter (\<lambda>j. \<not> list_ex (nameMatches (toLowerCase (name j))) ps) js)"
  by (induction js arbitrary: st; simp add: matchStep_names)+

text \<open>
  The lists of the result of \<^verbatim>\<open>calculateLocalMatch\<close> are those of the loop, and the loop
  applies its body to the job skills one after the other.
\<close>

lemma matchLoop_snoc: "matchLoop ps (js @ [j]) = matchStep ps (matchLoop ps js) j"
  by (simp add: matchLoop_def)

lemma calculateLocalMatch_lists:
  "skill_matches (calculateLocalMatch profile job) =
     skillMatches (matchLoop (extractProfileSkills (Some profile)) (extractJobSkills (Some job))) \<and>
   missing_skills_details (calculateLocalMatch profile job) =
     missingSkills (matchLoop (extractProfileSkills (Some profile)) (extractJobSkills (Some job)))"
  by (simp add: calculateLocalMatch_def Let_def)

lemma find_first: "\<not> list_ex P pre \<Longrightarrow> P p \<Longrightarrow> List.find P (pre @ p # post) = Some p"
  by (induction pre) auto

text \<open>
  C2, as amended. For a job skill \<open>j\<close>, with importance 0.5 when it is absent or zero,
  the loop of \<^verbatim>\<open>calculateLocalMatch\<close> takes the first profile skill \<open>p\<close>, in the order
  of the list, whose lower-cased name equals, contains or is contained in the
  lower-cased name of \<open>j\<close>. When there is none, \<open>j\<close> is added to the missing skills and
  nothing is added to the matches. When there is one, \<open>j\<close> is added to the matches with
  match quality 1 if the two names are equal up to case and 0.7 otherwise, and with
  match score the quality times the proficiency of \<open>p\<close>, 1 when it is absent or zero.
  The products are products of doubles.
\<close>

theorem matchStep_first_match:
  "(\<not> list_ex (nameMatches (toLowerCase (name j))) ps \<longrightarrow>
      skillMatches (matchStep ps st j) = skillMatches st \<and>
      missingSkills (matchStep ps st j) =
        missingSkills st @
        [\<lparr>ms_name = name j, ms_importance = numOr (importance j) (1 / 2),
          ms_required = boolOr (required j) False\<rparr>]) \<and>
   (\<forall>pre p post.
      ps = pre @ p # post \<and> \<not> list_ex (nameMatches (toLowerCase (name j))) pre \<and>
      nameMatches (toLowerCase (name j)) p \<longrightarrow>
      missingSkills (matchStep ps st j) = missingSkills st \<and>
      skillMatches (matchStep ps st j) =
        skillMatches st @
        [\<lparr>skill_name = name j,
          sm_importance = numOr (importance j) (1 / 2),
          sm_proficiency = numOr (proficiency p) 1,
          match_quality =
            (if toLowerCase (name p) = toLowerCase (name j) then 1 else toDouble (7 / 10)),
          match_score =
            toDouble
              ((if toLowerCase (name p) = toLowerCase (name j) then 1 else toDouble (7 / 10)) *
               numOr (proficiency p) 1),
          weighted_score =
            toDouble
              (numOr (importance j) (1 / 2) *
               toDouble
                 ((if toLowerCase (name p) = toLowerCase (name j) then 1 else toDouble (7 / 10)) *
                  numOr (proficiency p) 1)),
          sm_required = boolOr (required j) False\<rparr>])"
proof (intro conjI impI allI)
  assume "\<not> list_ex (nameMatches (toLowerCase (name j))) ps"
  then have none: "List.find (nameMatches (toLowerCase (name j))) ps = None"
    by (simp add: find_list_ex)
  show "skillMatches (matchStep ps st j) = skillMatches st"
    by (simp add: matchStep_def Let_def none)
  show "missingSkills (matchStep ps st j) =
        missingSkills st @
        [\<lparr>ms_name = name j, ms_importance = numOr (importance j) (1 / 2),
          ms_required = boolOr (required j) False\<rparr>]"
    by (simp add: matchStep_def Let_def none)
next
  fix pre p post
  assume a: "ps = pre @ p # post \<and> \<not> list_ex (nameMatches (toLowerCase (name j))) pre \<and>
      nameMatches (toLowerCase (name j)) p"
  then have some: "List.find (nameMatches (toLowerCase (name j))) ps = Some p"
    by (simp add: find_first)
  show "missingSkills (matchStep ps st j) = missingSkills st"
    by (simp add: matchStep_def Let_def some)
  show "skillMatches (matchStep ps st j) =
        skillMatches st @
        [\<lparr>skill_name = name j,
          sm_importance = numOr (importance j) (1 / 2),
          sm_proficiency = numOr (proficiency p) 1,
          match_quality =
            (if toLowerCase (name p) = toLowerCase (name j) then 1 else toDouble (7 / 10)),
          match_score =
            toDouble
              ((if toLowerCase (name p) = toLowerCase (name j) then 1 else toDouble (7 / 10)) *
               numOr (proficiency p) 1),
          weighted_score =
            toDouble
              (numOr (importance j) (1 / 2) *
               toDouble
                 ((if toLowerCase (name p) = toLowerCase (name j) then 1 else toDouble (7 / 10)) *
                  numOr (proficiency p) 1)),
          sm_required = boolOr (required j) False\<rparr>]"
    by (simp add: matchStep_def Let_def some)
qed

text \<open>
  The amended statement at a profile with the skills Java and JavaScript: the job skill
  Python has no match and is reported missing; the job skill JavaScript is matched by
  Java, the first profile skill whose name it contains, with quality and score 0.7 and
  weighted score 0.35.
\<close>

theorem matchStep_first_match_witness:
  "\<not> list_ex (nameMatches (toLowerCase (name (weighted ''Python'' (1 / 2)))))
        [named ''Java'', named ''JavaScript''] \<and>
   missingSkills (matchStep [named ''Java'', named ''JavaScript''] initialState
                    (weighted ''Python'' (1 / 2))) =
     [\<lparr>ms_name = ''Python'', ms_importance = 1 / 2, ms_required = False\<rparr>] \<and>
   nameMatches (toLowerCase (name (weighted ''JavaScript'' (1 / 2)))) (named ''Java'') \<and>
   skillMatches (matchStep [named ''Java'', named ''JavaScript''] initialState
                   (weighted ''JavaScript'' (1 / 2))) =
     [\<lparr>skill_name = ''JavaScript'', sm_importance = 1 / 2, sm_proficiency = 1,
       match_quality = toDouble (7 / 10), match_score = toDouble (7 / 10),
       weighted_score = toDouble (7 / 20), sm_required = False\<rparr>]"
proof -
  let ?ps = "[named ''Java'', named ''JavaScript'']"
  have h1: "\<not> list_ex (nameMatches (toLowerCase (name (weighted ''Python'' (1 / 2))))) ?ps"
    by code_simp
  have h2: "nameMatches (toLowerCase (name (weighted ''JavaScript'' (1 / 2)))) (named ''Java'')"
    by code_simp
  have h3: "toLowerCase (name (named ''Java'')) \<noteq> toLowerCase (name (weighted ''JavaScript'' (1 / 2)))"
    by code_simp
  have d1: "toDouble (toDouble (7 / 10) * 1) = toDouble (7 / 10)" by code_simp
  have d2: "toDouble (1 / 2 * toDouble (7 / 10)) = toDouble (7 / 20)" by code_simp
  have prem: "?ps = [] @ named ''Java'' # [named ''JavaScript''] \<and>
      \<not> list_ex (nameMatches (toLowerCase (name (weighted ''JavaScript'' (1 / 2))))) [] \<and>
      nameMatches (toLowerCase (name (weighted ''JavaScript'' (1 / 2)))) (named ''Java'')"
    using h2 by simp
  note t1 = matchStep_first_match[where j = "weighted ''Python'' (1 / 2)" and ps = ?ps
      and st = initialState, THEN conjunct1, rule_format, OF h1]
  note t2 = matchStep_first_match[where j = "weighted ''JavaScript'' (1 / 2)" and ps = ?ps
      and st = initialState, THEN conjunct2, rule_format, OF prem]
  from t1 have a: "missingSkills (matchStep ?ps initialState (weighted ''Python'' (1 / 2))) =
     [\<lparr>ms_name = ''Python'', ms_importance = 1 / 2, ms_required = False\<rparr>]"
    by (simp add: initialState_def weighted_def)
  from t2[THEN conjunct2] h3 have b:
    "skillMatches (matchStep ?ps initialState (weighted ''JavaScript'' (1 / 2))) =
     [\<lparr>skill_name = ''JavaScript'', sm_importance = 1 / 2, sm_proficiency = 1,
       match_quality = toDouble (7 / 10), match_score = toDouble (7 / 10),
       weighted_score = toDouble (7 / 20), sm_required = False\<rparr>]"
    using d1 d2 by (simp add: initialState_def weighted_def named_def)
  from h1 h2 a b show ?thesis by simp
qed

text \<open>
  C2 as stated fails: for the profile skills Java and JavaScript and the job skill
  JavaScript, the profile skill of greatest similarity is JavaScript (similarity 1, equal
  up to case), which would give match quality 1; the code matches Java (similarity 0.9)
  and reports match quality 0.7.
\<close>

theorem first_match_counterexample:
  "map match_quality (skill_matches (calculateLocalMatch javaProfile javaScriptJob)) =
     [toDouble (7 / 10)] \<and>
   calculateStringSimilarity (toLowerCase ''Java'') (toLowerCase ''JavaScript'') =
     toDouble (9 / 10) \<and>
   calculateStringSimilarity (toLowerCase ''JavaScript'') (toLowerCase ''JavaScript'') = 1"
  by code_simp

lemma similar_refl: "similar p p"
  using literal_bounds(4)
  by (simp add: similar_def calculateStringSimilarity_def similarityThreshold_def)

text \<open>
  The loop over the profile skills: when no profile skill occurs twice and no job skill
  is the empty string, the matched list is the profile skills that have a similar job
  skill, in order.
\<close>

lemma collectMatched_filter:
  "distinct ps \<Longrightarrow> set m \<inter> set ps = {} \<Longrightarrow> [] \<notin> set eff \<Longrightarrow>
   collectMatched eff m ps = m @ filter (\<lambda>p. list_ex (similar p) eff) ps"
proof (induction ps arbitrary: m)
  case Nil
  then show ?case by simp
next
  case (Cons p ps)
  show ?case
  proof (cases "List.find (similar p) eff")
    case None
    then have "\<not> list_ex (similar p) eff" by (simp add: find_list_ex)
    with None Cons show ?thesis by simp
  next
    case (Some b)
    then have b: "b \<in> set eff" "similar p b"
      by (auto simp: find_Some_iff)
    with Cons.prems have "b \<noteq> []" by auto
    moreover have "p \<notin> set m" using Cons.prems by auto
    moreover have "list_ex (similar p) eff" using b by (auto simp: list_ex_iff)
    moreover have "collectMatched eff (m @ [p]) ps =
        (m @ [p]) @ filter (\<lambda>p. list_ex (similar p) eff) ps"
      using Cons.prems by (intro Cons.IH) auto
    ultimately show ?thesis using Some by simp
  qed
qed

lemma performLocalMatch_lists:
  "skills_matched (performLocalMatch p j) =
     filter (\<lambda>pSkill. list_ex (\<lambda>jSkill. similar pSkill jSkill)
                         (effectiveJobSkills (extractSkills j)))
       (extractSkills p)"
  "skills_missing (performLocalMatch p j) =
     filter (\<lambda>jSkill. \<not> list_ex (\<lambda>pSkill. similar pSkill jSkill) (extractSkills p))
       (effectiveJobSkills (extractSkills j))"
proof -
  let ?pk = "extractSkills p"
  let ?eff = "effectiveJobSkills (extractSkills j)"
  have eff: "[] \<notin> set ?eff" using effective_entry[of "[]" j] by auto
  have coll: "collectMatched ?eff [] ?pk = filter (\<lambda>pSkill. list_ex (similar pSkill) ?eff) ?pk"
    using collectMatched_filter[of ?pk "[]" ?eff] extractSkills_distinct[of p] eff by simp
  show "skills_matched (performLocalMatch p j) =
      filter (\<lambda>pSkill. list_ex (\<lambda>jSkill. similar pSkill jSkill) ?eff) ?pk"
    using coll by (simp add: performLocalMatch_def Let_def)
  show "skills_missing (performLocalMatch p j) =
      filter (\<lambda>jSkill. \<not> list_ex (\<lambda>pSkill. similar pSkill jSkill) ?pk) ?eff"
    by (simp add: performLocalMatch_def Let_def missingOf_def)
qed

text \<open>
  C3, as amended. In \<^verbatim>\<open>calculateLocalMatch\<close> the names in \<^verbatim>\<open>skill_matches\<close> are the
  names of the job skills that some profile skill matches, in order, \<^verbatim>\<open>missing_skills\<close>
  are the names of the others, in order, and no name is in both. In
  \<^verbatim>\<open>performLocalMatch\<close> the list \<^verbatim>\<open>skills_matched\<close> is the extracted profile skills that
  are similar to some effective job skill, in order: it holds profile skills, not job
  skills. The list \<^verbatim>\<open>skills_missing\<close> is the effective job skills that no extracted
  profile skill is similar to, in order. The two lists are disjoint.
\<close>

theorem match_lists:
  "map skill_name (skill_matches (calculateLocalMatch profile job)) =
     map name (filter (\<lambda>j. list_ex (nameMatches (toLowerCase (name j)))
                              (extractProfileSkills (Some profile)))
                 (extractJobSkills (Some job))) \<and>
   missing_skills (calculateLocalMatch profile job) =
     map name (filter (\<lambda>j. \<not> list_ex (nameMatches (toLowerCase (name j)))
                                (extractProfileSkills (Some profile)))
                 (extractJobSkills (Some job))) \<and>
   set (map skill_name (skill_matches (calculateLocalMatch profile job))) \<inter>
     set (missing_skills (calculateLocalMatch profile job)) = {} \<and>
   skills_matched (performLocalMatch p j) =
     filter (\<lambda>pSkill. list_ex (\<lambda>jSkill. similar pSkill jSkill)
                         (effectiveJobSkills (extractSkills j)))
       (extractSkills p) \<and>
   skills_missing (performLocalMatch p j) =
     filter (\<lambda>jSkill. \<not> list_ex (\<lambda>pSkill. similar pSkill jSkill) (extractSkills p))
       (effectiveJobSkills (extractSkills j)) \<and>
   set (skills_matched (performLocalMatch p j)) \<inter> set (skills_missing (performLocalMatch p j)) = {}"
proof -
  let ?ps = "extractProfileSkills (Some profile)"
  let ?js = "extractJobSkills (Some job)"
  let ?P = "\<lambda>j. list_ex (nameMatches (toLowerCase (name j))) ?ps"
  have m: "map skill_name (skill_matches (calculateLocalMatch profile job)) = map name (filter ?P ?js)"
    by (simp add: calculateLocalMatch_def Let_def matchLoop_def foldl_matchStep_names initialState_def)
  have n: "missing_skills (calculateLocalMatch profile job) = map name (filter (\<lambda>j. \<not> ?P j) ?js)"
    by (simp add: calculateLocalMatch_def Let_def matchLoop_def foldl_matchStep_names initialState_def)
  have d: "set (map name (filter ?P ?js)) \<inter> set (map name (filter (\<lambda>j. \<not> ?P j) ?js)) = {}"
    by auto
  let ?pk = "extractSkills p"
  let ?eff = "effectiveJobSkills (extractSkills j)"
  have dis: "set (filter (\<lambda>pSkill. list_ex (\<lambda>jSkill. similar pSkill jSkill) ?eff) ?pk) \<inter>
      set (filter (\<lambda>jSkill. \<not> list_ex (\<lambda>pSkill. similar pSkill jSkill) ?pk) ?eff) = {}"
  proof -
    have "x \<notin> set (filter (\<lambda>jSkill. \<not> list_ex (\<lambda>pSkill. similar pSkill jSkill) ?pk) ?eff)"
      if "x \<in> set ?pk" for x
      using that similar_refl[of x] by (auto simp: list_ex_iff)
    then show ?thesis by auto
  qed
  show ?thesis
    unfolding m n performLocalMatch_lists using d dis by simp
qed

text \<open>
  C3 as stated fails for \<^verbatim>\<open>performLocalMatch\<close>: with the profile skill ReactJS and the
  job skill React, the matched list is the profile skill ReactJS and the missing list is
  empty, so the effective job skill React is in neither list.
\<close>

theorem matched_profile_names_counterexample:
  "effectiveJobSkills (extractSkills (Some reactJob)) = [''React''] \<and>
   skills_matched (performLocalMatch (Some reactJsProfile) (Some reactJob)) = [''ReactJS''] \<and>
   skills_missing (performLocalMatch (Some reactJsProfile) (Some reactJob)) = []"
  by code_simp

section \<open>Similarity and empty strings\<close>

lemma str_includes_Nil: "str_includes s []"
  by (induction s) auto

text \<open>
  The length test of \<^verbatim>\<open>calculateStringSimilarity\<close> is never reached with an empty
  string: the containment tests answer before it.
\<close>

lemma similarity_empty_general:
  "str1 = [] \<or> str2 = [] \<Longrightarrow> calculateStringSimilarity str1 str2 \<ge> toDouble (9 / 10)"
  using literal_bounds(3) by (auto simp: calculateStringSimilarity_def str_includes_Nil)




section \<open>A profile without skills\<close>

lemma floor_half: "\<lfloor>1 / 2 :: rat\<rfloor> = 0"
  by (rule floor_unique) simp_all

lemma foldl_matchStep_no_profile:
  "skillMatches (foldl (matchStep []) st js) = skillMatches st \<and>
   matchedImportance (foldl (matchStep []) st js) = matchedImportance st"
  by (induction js arbitrary: st) (simp_all add: matchStep_def Let_def)

lemma matchLoop_no_profile:
  "skillMatches (matchLoop [] js) = []" "matchedImportance (matchLoop [] js) = 0"
  using foldl_matchStep_no_profile[of initialState js]
  by (simp_all add: matchLoop_def initialState_def)

text \<open>
  C5, as amended. When \<^verbatim>\<open>extractSkills\<close> finds no skill in the profile,
  \<^verbatim>\<open>performLocalMatch\<close> returns the score 0.3, no matched skill, the effective job skills
  as missing and the message "No profile skills found for matching".
  \<^verbatim>\<open>calculateLocalMatch\<close> has no such case: for a profile without skills it reports no
  match and every job skill missing, and the overall match is 0 when the total
  importance of the job skills is not zero.
\<close>

theorem empty_profile_results:
  "(extractSkills profile = [] \<longrightarrow>
      performLocalMatch profile job =
        \<lparr>overall_score = toDouble (3 / 10), skill_match = toDouble (3 / 10), skills_matched = [],
         skills_missing = effectiveJobSkills (extractSkills job),
         message = Some ''No profile skills found for matching'',
         error = None, platforms = None\<rparr>) \<and>
   (extractProfileSkills (Some p) = [] \<longrightarrow>
      skill_matches (calculateLocalMatch p j) = [] \<and>
      missing_skills (calculateLocalMatch p j) = map name (extractJobSkills (Some j)) \<and>
      (totalImportance (matchLoop [] (extractJobSkills (Some j))) \<noteq> 0 \<longrightarrow>
         overall_match (calculateLocalMatch p j) = Fin 0))"
proof (intro conjI impI)
  assume "extractSkills profile = []"
  then show "performLocalMatch profile job =
        \<lparr>overall_score = toDouble (3 / 10), skill_match = toDouble (3 / 10), skills_matched = [],
         skills_missing = effectiveJobSkills (extractSkills job),
         message = Some ''No profile skills found for matching'',
         error = None, platforms = None\<rparr>"
    by (simp add: performLocalMatch_def)
next
  assume e: "extractProfileSkills (Some p) = []"
  let ?js = "extractJobSkills (Some j)"
  have loop: "matchLoop (extractProfileSkills (Some p)) ?js = matchLoop [] ?js"
    unfolding e ..
  show "skill_matches (calculateLocalMatch p j) = []"
    unfolding calculateLocalMatch_def Let_def loop by (simp add: matchLoop_no_profile)
  show "missing_skills (calculateLocalMatch p j) = map name ?js"
    using foldl_matchStep_names(2)[of "[]" initialState ?js]
    unfolding calculateLocalMatch_def Let_def loop
    by (simp add: initialState_def matchLoop_def)
  show "overall_match (calculateLocalMatch p j) = Fin 0"
    if "totalImportance (matchLoop [] ?js) \<noteq> 0"
    using that unfolding calculateLocalMatch_def Let_def loop
    by (simp add: matchLoop_no_profile js_div_def toDouble_zero floor_half)
qed

text \<open>The amended statement at the empty profile and the job of scenario A.\<close>

theorem empty_profile_results_witness:
  "extractSkills (Some emptyObj) = [] \<and>
   performLocalMatch (Some emptyObj) (Some scenarioA_job) =
     \<lparr>overall_score = toDouble (3 / 10), skill_match = toDouble (3 / 10), skills_matched = [],
      skills_missing = [''React'', ''Python''],
      message = Some ''No profile skills found for matching'',
      error = None, platforms = None\<rparr> \<and>
   extractProfileSkills (Some emptyObj) = [] \<and>
   totalImportance (matchLoop [] (extractJobSkills (Some scenarioA_job))) \<noteq> 0 \<and>
   skill_matches (calculateLocalMatch emptyObj scenarioA_job) = [] \<and>
   missing_skills (calculateLocalMatch emptyObj scenarioA_job) = [''React'', ''Python''] \<and>
   overall_match (calculateLocalMatch emptyObj scenarioA_job) = Fin 0"
proof -
  have h1: "extractSkills (Some emptyObj) = []" by code_simp
  have h2: "extractProfileSkills (Some emptyObj) = []" by code_simp
  have e: "effectiveJobSkills (extractSkills (Some scenarioA_job)) = [''React'', ''Python'']"
    by code_simp
  have n: "map name (extractJobSkills (Some scenarioA_job)) = [''React'', ''Python'']"
    by code_simp
  have s: "totalImportance (matchLoop [] (extractJobSkills (Some scenarioA_job))) \<noteq> 0"
    by code_simp
  note t = empty_profile_results[where profile = "Some emptyObj" and job = "Some scenarioA_job"
      and p = emptyObj and j = scenarioA_job]
  from t h1 h2 e n s show ?thesis by simp
qed

text \<open>
  C5 as stated fails for \<^verbatim>\<open>calculateLocalMatch\<close>: for the empty profile and the job of
  scenario A the overall match is 0, not 0.3, and the only text is the Poor
  recommendation.
\<close>

theorem empty_profile_counterexample:
  "extractProfileSkills (Some emptyObj) = [] \<and>
   overall_match (calculateLocalMatch emptyObj scenarioA_job) = Fin 0 \<and>
   recommendation (calculateLocalMatch emptyObj scenarioA_job) =
     ''Poor Match: This candidate does not appear to have the necessary skills for this position.''"
  by code_simp

section \<open>The fallback job skills\<close>

lemma performLocalMatch_effective:
  "effectiveJobSkills (extractSkills job) = effectiveJobSkills (extractSkills job') \<Longrightarrow>
   performLocalMatch profile job = performLocalMatch profile job'"
  by (simp add: performLocalMatch_def Let_def)

lemma extractSkills_fallbackJob: "extractSkills (Some fallbackJob) = fallbackJobSkills"
  by code_simp

lemma generic_job_skills:
  "newSet (filter (\<lambda>s. s \<noteq> []) (map trim [''Professional'', ''Communication'', ''Teamwork''])) =
     [''Professional'', ''Communication'', ''Teamwork'']"
  by code_simp

lemma collectedSkills_job:
  assumes "skillNames (skills jobRec) = []" and "data jobRec = None" and "username jobRec = []"
    and "keywordsOf (title jobRec) = []" and "keywordsOf (description jobRec) = []"
    and "keywordsOf (bio jobRec) = []"
  shows "collectedSkills jobRec =
     (if company jobRec = [] then []
      else extractTechKeywords (company jobRec) @ [''Professional'', ''Communication'', ''Teamwork''])"
  using assms
  by (simp add: collectedSkills_def linkedInSkills_def gitHubSkills_def isLinkedIn_def
      isGitHub_def usernameFallback_def companyFallback_def)

text \<open>
  C6, as amended. When \<^verbatim>\<open>extractSkills\<close> finds nothing in the job, \<^verbatim>\<open>performLocalMatch\<close>
  matches against communication, teamwork, problem solving, professional: its result is
  that of a job with these four skills, and for a profile without skills its missing
  list is these four, so the list of job skills it works with is never empty.
  \<^verbatim>\<open>extractSkills\<close> finds nothing in a job record whose skills have no names, whose
  title and description have no keywords and which has no company. When such a record
  has a company, the company name, even without keywords, yields Professional,
  Communication, Teamwork, and these three are the job skills.
\<close>

theorem job_skill_fallback:
  "(extractSkills job = [] \<longrightarrow>
      performLocalMatch profile job = performLocalMatch profile (Some fallbackJob)) \<and>
   (extractSkills profile = [] \<longrightarrow>
      skills_missing (performLocalMatch profile job) =
        (if extractSkills job = []
         then [''communication'', ''teamwork'', ''problem solving'', ''professional'']
         else extractSkills job) \<and>
      skills_missing (performLocalMatch profile job) \<noteq> []) \<and>
   (skillNames (skills jobRec) = [] \<and> data jobRec = None \<and> username jobRec = [] \<and>
    keywordsOf (title jobRec) = [] \<and> keywordsOf (description jobRec) = [] \<and>
    keywordsOf (bio jobRec) = [] \<longrightarrow>
      (company jobRec = [] \<longrightarrow> extractSkills (Some jobRec) = []) \<and>
      (company jobRec \<noteq> [] \<and> extractTechKeywords (company jobRec) = [] \<longrightarrow>
         extractSkills (Some jobRec) = [''Professional'', ''Communication'', ''Teamwork'']))"
proof (intro conjI impI)
  assume e: "extractSkills job = []"
  have "effectiveJobSkills [] = effectiveJobSkills fallbackJobSkills"
    by (simp add: effectiveJobSkills_def fallbackJobSkills_def)
  then have "effectiveJobSkills (extractSkills job) = effectiveJobSkills (extractSkills (Some fallbackJob))"
    by (simp only: e extractSkills_fallbackJob)
  then show "performLocalMatch profile job = performLocalMatch profile (Some fallbackJob)"
    by (rule performLocalMatch_effective)
next
  assume p: "extractSkills profile = []"
  show "skills_missing (performLocalMatch profile job) =
        (if extractSkills job = []
         then [''communication'', ''teamwork'', ''problem solving'', ''professional'']
         else extractSkills job)"
    by (simp add: performLocalMatch_def p effectiveJobSkills_def fallbackJobSkills_def)
  then show "skills_missing (performLocalMatch profile job) \<noteq> []"
    by simp
next
  assume a: "skillNames (skills jobRec) = [] \<and> data jobRec = None \<and> username jobRec = [] \<and>
    keywordsOf (title jobRec) = [] \<and> keywordsOf (description jobRec) = [] \<and>
    keywordsOf (bio jobRec) = []"
  then have c: "collectedSkills jobRec =
     (if company jobRec = [] then []
      else extractTechKeywords (company jobRec) @ [''Professional'', ''Communication'', ''Teamwork''])"
    by (intro collectedSkills_job) auto
  show "extractSkills (Some jobRec) = []" if "company jobRec = []"
    using that by (simp add: c newSet_def)
  show "extractSkills (Some jobRec) = [''Professional'', ''Communication'', ''Teamwork'']"
    if "company jobRec \<noteq> [] \<and> extractTechKeywords (company jobRec) = []"
    using that generic_job_skills by (simp add: c)
qed

text \<open>
  The amended statement at a job with the title Cook and no company, and at the same job
  at the company Acme, both against the empty profile.
\<close>

theorem job_skill_fallback_witness:
  "extractSkills (Some cookJob) = [] \<and>
   performLocalMatch (Some emptyObj) (Some cookJob) =
     performLocalMatch (Some emptyObj) (Some fallbackJob) \<and>
   extractSkills (Some emptyObj) = [] \<and>
   skills_missing (performLocalMatch (Some emptyObj) (Some cookJob)) =
     [''communication'', ''teamwork'', ''problem solving'', ''professional''] \<and>
   company cookAcmeJob \<noteq> [] \<and> extractTechKeywords (company cookAcmeJob) = [] \<and>
   extractSkills (Some cookAcmeJob) = [''Professional'', ''Communication'', ''Teamwork'']"
proof -
  have k: "keywordsOf ''Cook'' = []" by code_simp
  have a: "extractTechKeywords ''Acme'' = []" by code_simp
  have h1: "skillNames (skills cookJob) = [] \<and> data cookJob = None \<and> username cookJob = [] \<and>
    keywordsOf (title cookJob) = [] \<and> keywordsOf (description cookJob) = [] \<and>
    keywordsOf (bio cookJob) = []"
    using k by (simp add: cookJob_def emptyObj_def skillNames_def keywordsOf_def)
  have h2: "skillNames (skills cookAcmeJob) = [] \<and> data cookAcmeJob = None \<and>
    username cookAcmeJob = [] \<and> keywordsOf (title cookAcmeJob) = [] \<and>
    keywordsOf (description cookAcmeJob) = [] \<and> keywordsOf (bio cookAcmeJob) = []"
    using k by (simp add: cookAcmeJob_def emptyObj_def skillNames_def keywordsOf_def)
  have c1: "company cookJob = []" by (simp add: cookJob_def emptyObj_def)
  have c2: "company cookAcmeJob \<noteq> [] \<and> extractTechKeywords (company cookAcmeJob) = []"
    using a by (simp add: cookAcmeJob_def emptyObj_def)
  have p: "extractSkills (Some emptyObj) = []" by code_simp
  note t1 = job_skill_fallback[where job = "Some cookJob" and profile = "Some emptyObj"
      and jobRec = cookJob]
  note t2 = job_skill_fallback[where job = "Some cookAcmeJob" and profile = "Some emptyObj"
      and jobRec = cookAcmeJob]
  from t1 h1 c1 have e: "extractSkills (Some cookJob) = []" by blast
  from t1 e have r: "performLocalMatch (Some emptyObj) (Some cookJob) =
     performLocalMatch (Some emptyObj) (Some fallbackJob)" by blast
  from t1 p have "skills_missing (performLocalMatch (Some emptyObj) (Some cookJob)) =
        (if extractSkills (Some cookJob) = []
         then [''communication'', ''teamwork'', ''problem solving'', ''professional'']
         else extractSkills (Some cookJob))" by blast
  then have m: "skills_missing (performLocalMatch (Some emptyObj) (Some cookJob)) =
     [''communication'', ''teamwork'', ''problem solving'', ''professional'']"
    by (simp only: e HOL.simp_thms if_True)
  from t2 h2 c2 have x: "extractSkills (Some cookAcmeJob) =
     [''Professional'', ''Communication'', ''Teamwork'']" by blast
  from c2 have c2a: "company cookAcmeJob \<noteq> []"
    and c2b: "extractTechKeywords (company cookAcmeJob) = []" by blast+
  show ?thesis by (intro conjI) (rule e r p m c2a c2b x)+
qed

text \<open>
  C6 as stated fails: the job with the title Cook at the company Acme has no skills and
  no keyword in its title, description or company, and the job skills that
  \<^verbatim>\<open>performLocalMatch\<close> reports missing for the empty profile are Professional,
  Communication, Teamwork, not the four fallback skills.
\<close>

theorem company_skills_counterexample:
  "skills cookAcmeJob = [] \<and>
   extractTechKeywords (title cookAcmeJob) = [] \<and>
   extractTechKeywords (company cookAcmeJob) = [] \<and>
   description cookAcmeJob = [] \<and>
   skills_missing (performLocalMatch (Some emptyObj) (Some cookAcmeJob)) =
     [''Professional'', ''Communication'', ''Teamwork'']"
  by code_simp

section \<open>The heap after a match\<close>

lemma derefAll_length: "derefAll h rs = Some obs \<Longrightarrow> length obs = length rs"
  by (induction rs arbitrary: obs) (auto split: option.splits)

lemma assignJobSkills_at:
  assumes "a < length h" and "h ! a = Record job"
  shows "assignJobSkills h (Some a) = h[a := Record (fillJobSkills job)]"
  using assms by (simp add: assignJobSkills_def deref_def)

lemma calculateMatch_job_cell:
  assumes "a < length h" and "h ! a = Record job"
  shows "fst (calculateMatch h profile (Some a)) ! a = Record (fillJobSkills job)"
proof -
  have "deref h (Some a) = Some job" using assms by (simp add: deref_def)
  then show ?thesis
    using assms by (simp add: calculateMatch_def assignJobSkills_at alloc_def Let_def nth_append)
qed

lemma calculateCombinedMatch_result:
  assumes "a < length h" and "h ! a = Record job"
    and "derefAll (h[a := Record (fillJobSkills job)]) profiles = Some ps"
  shows "snd (calculateCombinedMatch h profiles (Some a)) = Inr (length h)"
proof -
  have "deref h (Some a) = Some job" using assms by (simp add: deref_def)
  then show ?thesis
    using assms
    by (simp add: calculateCombinedMatch_def assignJobSkills_at alloc_def Let_def)
qed

lemma keywords_React: "extractTechKeywords ''React'' = [''React'', ''R'']"
  by code_simp

lemma fillJobSkills_describedJob:
  "fillJobSkills describedJob = describedJob\<lparr>skills := [Str ''React'', Str ''R'']\<rparr>"
  by (simp add: fillJobSkills_def describedJob_def emptyObj_def keywords_React)

lemma fillJobSkills_fields:
  "fillJobSkills job =
     job\<lparr>skills := (if description job \<noteq> [] \<and> skills job = []
                     then map Str (extractTechKeywords (description job)) else skills job)\<rparr>"
  by (simp add: fillJobSkills_def)

text \<open>
  C9, as amended. Let the job be a record at address \<open>a\<close> of the heap.
  \<^verbatim>\<open>calculateMatch\<close> returns the address of a new cell, which holds the result, and
  changes no other cell than the job: every record at another address, the profile
  among them, is as before. Of the job record only the field \<^verbatim>\<open>skills\<close> can change: it
  becomes the keywords of the description when the description is not empty and the
  skills are absent or empty. \<^verbatim>\<open>calculateCombinedMatch\<close> treats the heap in the same way,
  and when it returns a result, that is a new cell too.
\<close>

theorem match_heap_frame:
  "a < length h \<and> h ! a = Record job \<longrightarrow>
     snd (calculateMatch h profile (Some a)) = length h \<and>
     length (fst (calculateMatch h profile (Some a))) = Suc (length h) \<and>
     (\<exists>res. fst (calculateMatch h profile (Some a)) ! length h = Result res) \<and>
     (\<forall>b<length h. b \<noteq> a \<longrightarrow> fst (calculateMatch h profile (Some a)) ! b = h ! b) \<and>
     fst (calculateMatch h profile (Some a)) ! a =
       Record (job\<lparr>skills := (if description job \<noteq> [] \<and> skills job = []
                               then map Str (extractTechKeywords (description job))
                               else skills job)\<rparr>) \<and>
     (\<forall>b<length h. b \<noteq> a \<longrightarrow> fst (calculateCombinedMatch h profiles (Some a)) ! b = h ! b) \<and>
     fst (calculateCombinedMatch h profiles (Some a)) ! a =
       Record (job\<lparr>skills := (if description job \<noteq> [] \<and> skills job = []
                               then map Str (extractTechKeywords (description job))
                               else skills job)\<rparr>) \<and>
     (\<forall>r. snd (calculateCombinedMatch h profiles (Some a)) = Inr r \<longrightarrow>
        r = length h \<and>
        length (fst (calculateCombinedMatch h profiles (Some a))) = Suc (length h) \<and>
        (\<exists>res. fst (calculateCombinedMatch h profiles (Some a)) ! r = Result res))"
proof (intro impI)
  assume asm: "a < length h \<and> h ! a = Record job"
  then have a: "a < length h" and j: "h ! a = Record job" by auto
  let ?h1 = "h[a := Record (fillJobSkills job)]"
  have d: "deref h (Some a) = Some job" using a j by (simp add: deref_def)
  have h1: "assignJobSkills h (Some a) = ?h1" using a j by (rule assignJobSkills_at)
  obtain res where cm: "calculateMatch h profile (Some a) = (?h1 @ [Result res], length h)"
    by (simp add: calculateMatch_def d h1 alloc_def Let_def)
  have frame1: "snd (calculateMatch h profile (Some a)) = length h \<and>
     length (fst (calculateMatch h profile (Some a))) = Suc (length h) \<and>
     (\<exists>res. fst (calculateMatch h profile (Some a)) ! length h = Result res) \<and>
     (\<forall>b<length h. b \<noteq> a \<longrightarrow> fst (calculateMatch h profile (Some a)) ! b = h ! b) \<and>
     fst (calculateMatch h profile (Some a)) ! a = Record (fillJobSkills job)"
    using a by (simp add: cm nth_append)
  have cc: "fst (calculateCombinedMatch h profiles (Some a)) = ?h1 \<and>
            (\<exists>e. snd (calculateCombinedMatch h profiles (Some a)) = Inl e) \<or>
            (\<exists>res. calculateCombinedMatch h profiles (Some a) = (?h1 @ [Result res], Inr (length h)))"
    by (cases "derefAll ?h1 profiles")
       (simp_all add: calculateCombinedMatch_def d h1 alloc_def Let_def)
  have frame2: "(\<forall>b<length h. b \<noteq> a \<longrightarrow> fst (calculateCombinedMatch h profiles (Some a)) ! b = h ! b) \<and>
     fst (calculateCombinedMatch h profiles (Some a)) ! a = Record (fillJobSkills job) \<and>
     (\<forall>r. snd (calculateCombinedMatch h profiles (Some a)) = Inr r \<longrightarrow>
        r = length h \<and>
        length (fst (calculateCombinedMatch h profiles (Some a))) = Suc (length h) \<and>
        (\<exists>res. fst (calculateCombinedMatch h profiles (Some a)) ! r = Result res))"
    using cc a by (auto simp: nth_append)
  from frame1 frame2 show "snd (calculateMatch h profile (Some a)) = length h \<and>
     length (fst (calculateMatch h profile (Some a))) = Suc (length h) \<and>
     (\<exists>res. fst (calculateMatch h profile (Some a)) ! length h = Result res) \<and>
     (\<forall>b<length h. b \<noteq> a \<longrightarrow> fst (calculateMatch h profile (Some a)) ! b = h ! b) \<and>
     fst (calculateMatch h profile (Some a)) ! a =
       Record (job\<lparr>skills := (if description job \<noteq> [] \<and> skills job = []
                               then map Str (extractTechKeywords (description job))
                               else skills job)\<rparr>) \<and>
     (\<forall>b<length h. b \<noteq> a \<longrightarrow> fst (calculateCombinedMatch h profiles (Some a)) ! b = h ! b) \<and>
     fst (calculateCombinedMatch h profiles (Some a)) ! a =
       Record (job\<lparr>skills := (if description job \<noteq> [] \<and> skills job = []
                               then map Str (extractTechKeywords (description job))
                               else skills job)\<rparr>) \<and>
     (\<forall>r. snd (calculateCombinedMatch h profiles (Some a)) = Inr r \<longrightarrow>
        r = length h \<and>
        length (fst (calculateCombinedMatch h profiles (Some a))) = Suc (length h) \<and>
        (\<exists>res. fst (calculateCombinedMatch h profiles (Some a)) ! r = Result res))"
    unfolding fillJobSkills_fields[symmetric] by blast
qed

text \<open>
  The amended statement at a heap with the profile of scenario A at address 0 and, at
  address 1, a job with the description "React" and no skills: the result is the new
  cell 2, the profile is unchanged, and the job has the skills React and R.
\<close>

theorem match_heap_frame_witness:
  "(1::nat) < length exampleHeap \<and> exampleHeap ! 1 = Record describedJob \<and>
   snd (calculateMatch exampleHeap (Some 0) (Some 1)) = 2 \<and>
   fst (calculateMatch exampleHeap (Some 0) (Some 1)) ! 0 = Record scenarioA_profile \<and>
   fst (calculateMatch exampleHeap (Some 0) (Some 1)) ! 1 =
     Record (describedJob\<lparr>skills := [Str ''React'', Str ''R'']\<rparr>) \<and>
   snd (calculateCombinedMatch exampleHeap [Some 0] (Some 1)) = Inr 2 \<and>
   fst (calculateCombinedMatch exampleHeap [Some 0] (Some 1)) ! 0 = Record scenarioA_profile"
proof -
  have l: "length exampleHeap = 2" by (simp add: exampleHeap_def)
  have h1: "(1::nat) < length exampleHeap" by (simp add: exampleHeap_def)
  have h2: "exampleHeap ! 1 = Record describedJob" by (simp add: exampleHeap_def)
  have p: "exampleHeap ! 0 = Record scenarioA_profile" by (simp add: exampleHeap_def)
  have z: "(0::nat) < length exampleHeap" "(0::nat) \<noteq> 1" by (simp_all add: exampleHeap_def)
  have k: "(if description describedJob \<noteq> [] \<and> skills describedJob = []
            then map Str (extractTechKeywords (description describedJob))
            else skills describedJob) = [Str ''React'', Str ''R'']"
    by (simp add: describedJob_def emptyObj_def keywords_React)
  have d: "derefAll (exampleHeap[1 := Record (fillJobSkills describedJob)]) [Some 0] =
      Some [scenarioA_profile]"
    by (simp add: exampleHeap_def deref_def)
  have c: "snd (calculateCombinedMatch exampleHeap [Some 0] (Some 1)) = Inr 2"
    using calculateCombinedMatch_result[OF h1 h2 d] by (simp only: l)
  note t = match_heap_frame[where h = exampleHeap and a = 1 and job = describedJob
      and profile = "Some 0" and profiles = "[Some 0]", rule_format, OF conjI[OF h1 h2]]
  have a1: "snd (calculateMatch exampleHeap (Some 0) (Some 1)) = 2"
    using t[THEN conjunct1] by (simp only: l)
  have a2: "fst (calculateMatch exampleHeap (Some 0) (Some 1)) ! 0 = Record scenarioA_profile"
    using t[THEN conjunct2, THEN conjunct2, THEN conjunct2, THEN conjunct1, rule_format, OF z]
    by (simp only: p)
  have a3: "fst (calculateMatch exampleHeap (Some 0) (Some 1)) ! 1 =
     Record (describedJob\<lparr>skills := [Str ''React'', Str ''R'']\<rparr>)"
    using t[THEN conjunct2, THEN conjunct2, THEN conjunct2, THEN conjunct2, THEN conjunct1]
    by (simp only: k)
  have a4: "fst (calculateCombinedMatch exampleHeap [Some 0] (Some 1)) ! 0 = Record scenarioA_profile"
    using t[THEN conjunct2, THEN conjunct2, THEN conjunct2, THEN conjunct2, THEN conjunct2,
        THEN conjunct1, rule_format, OF z]
    by (simp only: p)
  show ?thesis by (intro conjI) (rule h1 h2 a1 a2 a3 c a4)+
qed

text \<open>
  C9 as stated fails: the job record at address 1 has no skills before
  \<^verbatim>\<open>calculateMatch\<close> and the skills React and R after it.
\<close>

theorem job_skills_overwritten_counterexample:
  "exampleHeap ! 1 = Record describedJob \<and> skills describedJob = [] \<and>
   fst (calculateMatch exampleHeap (Some 0) (Some 1)) ! 1 =
     Record (describedJob\<lparr>skills := [Str ''React'', Str ''R'']\<rparr>)"
proof -
  have h: "(1::nat) < length exampleHeap" "exampleHeap ! 1 = Record describedJob"
    by (simp_all add: exampleHeap_def)
  have s: "skills describedJob = []" by (simp add: describedJob_def emptyObj_def)
  from calculateMatch_job_cell[OF h] h(2) s show ?thesis
    by (simp only: fillJobSkills_describedJob)
qed

end
